theory Spec2Isabelle
  imports Main
begin

section \<open>Values exchanged with the model service\<close>

text \<open>
  The component \<open>App\<close> of \<open>src/App.tsx\<close> keeps the whole session in React state and
  talks to a generative model through three asynchronous calls: \<open>generateScenario\<close>,
  \<open>chatSession.sendMessage\<close> and \<open>generateFeedback\<close>.  What comes back from
  \<open>JSON.parse\<close> is an untyped JavaScript value, so it is modelled as one.  Numbers are
  restricted to integers and strings to the code units 0..255.
\<close>

datatype jsval =
    JUndefined
  | JNull
  | JBool bool
  | JNum int
  | JStr string
  | JArr "jsval list"
  | JObj "(string \<times> jsval) list"

text \<open>
  The three ways in which the body of a \<open>try\<close> block can throw: the awaited call rejects,
  \<open>JSON.parse\<close> throws on the text it is given, or a property is read from \<open>null\<close> or
  \<open>undefined\<close>.
\<close>

datatype error = GenerationFailure | ShapeFailure | TypeError

text \<open>
  Reading a property \<open>d.k\<close>.  The list of a \<open>JObj\<close> holds the object's own properties
  under distinct keys.  Only the names \<open>updatedState\<close>, \<open>currentPhase\<close> and
  \<open>witnessResponse\<close> are ever read, which no primitive or array has.
\<close>

fun get_prop :: "jsval \<Rightarrow> string \<Rightarrow> error + jsval" where
  "get_prop JUndefined k = Inl TypeError"
| "get_prop JNull k = Inl TypeError"
| "get_prop (JObj kvs) k = Inr (case map_of kvs k of None \<Rightarrow> JUndefined | Some v \<Rightarrow> v)"
| "get_prop v k = Inr JUndefined"

section \<open>Strings\<close>

text \<open>\<open>String.prototype.trim\<close> on the code units 0..255: TAB, LF, VT, FF, CR, space, NBSP.\<close>

definition isWhiteSpace :: "char \<Rightarrow> bool" where
  "isWhiteSpace c = ((of_char c :: nat) \<in> {9, 10, 11, 12, 13, 32, 160})"

definition trim :: "string \<Rightarrow> string" where
  "trim x = rev (dropWhile isWhiteSpace (rev (dropWhile isWhiteSpace x)))"

text \<open>
  \<open>String.prototype.toLowerCase\<close> on the code units 0..255: the letters A..Z and the
  Latin-1 capitals U+00C0..U+00DE (without the multiplication sign U+00D7) move up by 32,
  which sets bit 5; every other code unit is kept.
\<close>

definition isUpper :: "char \<Rightarrow> bool" where
  "isUpper c = (let n = (of_char c :: nat) in (65 \<le> n \<and> n \<le> 90) \<or> (192 \<le> n \<and> n \<le> 222 \<and> n \<noteq> 215))"

fun toLowerChar :: "char \<Rightarrow> char" where
  "toLowerChar (Char b0 b1 b2 b3 b4 b5 b6 b7) =
     (if isUpper (Char b0 b1 b2 b3 b4 b5 b6 b7) then Char b0 b1 b2 b3 b4 True b6 b7
      else Char b0 b1 b2 b3 b4 b5 b6 b7)"

definition toLowerCase :: "string \<Rightarrow> string" where
  "toLowerCase x = map toLowerChar x"

text \<open>\<open>Array.prototype.join\<close>.\<close>

fun join :: "string \<Rightarrow> string list \<Rightarrow> string" where
  "join sep [] = []"
| "join sep [x] = x"
| "join sep (x # y # ys) = x @ sep @ join sep (y # ys)"

section \<open>Data model\<close>

datatype Difficulty = BEGINNER | INTERMEDIATE | ADVANCED | CRISIS

datatype Role = User | Model

record Scenario =
  investigationType :: string
  companyBackground :: string
  jurisdiction :: string
  regulatoryExposure :: string
  witnessRole :: string
  witnessArchetype :: string
  witnessIntroduction :: string
  documentUniverse :: string
  hiddenGroundTruth :: string
  keyRiskNodes :: "string list option"

text \<open>
  A transcript entry.  The user's entries and the fallback entry are built without
  \<open>phase\<close> and \<open>hiddenState\<close>; reading an absent property gives \<open>undefined\<close>.
\<close>

record Message =
  role :: Role
  msg_text :: jsval
  phase :: jsval
  hiddenState :: jsval

record FinalReport =
  timelineReconstructionScore :: int
  contradictionIdentificationScore :: int
  riskEscalationAwareness :: int
  interviewControlAssessment :: int
  behavioralAnalysis :: string
  legalExposureAnalysis :: string
  missedFollowUps :: "string list"
  improvedQuestioningPaths :: "string list"

text \<open>The configuration handed to \<open>ai.chats.create\<close>.\<close>

record Chat =
  model :: string
  systemInstruction :: string
  responseMimeType :: string

text \<open>
  The values \<open>App.tsx\<close> imports from \<open>./types\<close> and \<open>./services/geminiService\<close>, which
  are taken as parameters: the base system instruction, the string behind each member of
  the enum \<open>Difficulty\<close>, and the enum member \<open>InterviewPhase.RAPPORT\<close>.
\<close>

record Imports =
  SYSTEM_INSTRUCTION_BASE :: string
  difficultyValue :: "Difficulty \<Rightarrow> string"
  RAPPORT :: jsval

text \<open>The nine \<open>useState\<close> cells of \<open>App\<close>.\<close>

record AppState =
  difficulty :: "Difficulty option"
  scenario :: "Scenario option"
  messages :: "Message list"
  inputValue :: string
  isGenerating :: bool
  chatSession :: "Chat option"
  finalReport :: "FinalReport option"
  latestState :: jsval
  currentPhase :: jsval

definition initialState :: "Imports \<Rightarrow> AppState" where
  "initialState E =
     \<lparr> difficulty = None, scenario = None, messages = [], inputValue = [],
       isGenerating = False, chatSession = None, finalReport = None,
       latestState = JNull, currentPhase = RAPPORT E \<rparr>"

text \<open>
  Which of the three screens \<open>App\<close> renders: the report once \<open>finalReport\<close> is set, the
  difficulty chooser while \<open>difficulty\<close> is unset, the live interview otherwise.
\<close>

datatype SessionState = Uninitialized | Active | Concluded

definition sessionState :: "AppState \<Rightarrow> SessionState" where
  "sessionState s =
     (if finalReport s \<noteq> None then Concluded
      else if difficulty s = None then Uninitialized
      else Active)"

text \<open>Everything a handler does besides writing state, in the order it happens.\<close>

datatype effect =
    GenerateScenario Difficulty
  | ChatsCreate Chat
  | SendMessage string
  | GenerateFeedback "Message list" "Scenario option"
  | ConsoleError string
  | Alert string

section \<open>\<open>startSimulation\<close>\<close>

definition nl :: string where
  "nl = [CHR 0x0A]"

definition indent :: string where
  "indent = ''        ''"

definition initialStateLine :: string where
  "initialStateLine =
     ''Truthfulness: 70, Stress: 10, Defensiveness: 20, Cooperation: 80, Memory: 90, Exposure: 5, Legal Risk: 0.''"

definition systemPrompt :: "Imports \<Rightarrow> Scenario \<Rightarrow> Difficulty \<Rightarrow> string" where
  "systemPrompt E newScenario diff = concat
     [nl,
      indent, SYSTEM_INSTRUCTION_BASE E, nl,
      indent, nl,
      indent, ''SCENARIO CONTEXT:'', nl,
      indent, ''Type: '', investigationType newScenario, nl,
      indent, ''Company: '', companyBackground newScenario, nl,
      indent, ''Jurisdiction: '', jurisdiction newScenario, nl,
      indent, ''Exposure: '', regulatoryExposure newScenario, nl,
      indent, ''Witness Role: '', witnessRole newScenario, nl,
      indent, ''Witness Archetype: '', witnessArchetype newScenario, nl,
      indent, ''Ground Truth (HIDDEN FROM USER): '', hiddenGroundTruth newScenario, nl,
      indent, ''Risk Nodes: '',
        (case keyRiskNodes newScenario of None \<Rightarrow> ''undefined'' | Some ns \<Rightarrow> join '', '' ns), nl,
      indent, nl,
      indent, ''DIFFICULTY LEVEL: '', difficultyValue E diff, nl,
      indent, nl,
      indent, ''INITIAL STATE:'', nl,
      indent, initialStateLine, nl,
      ''      '']"

definition createChat :: "Imports \<Rightarrow> Scenario \<Rightarrow> Difficulty \<Rightarrow> Chat" where
  "createChat E newScenario diff =
     \<lparr> model = ''gemini-3-pro-preview'',
       systemInstruction = systemPrompt E newScenario diff,
       responseMimeType = ''application/json'' \<rparr>"

definition introMessage :: "Scenario \<Rightarrow> Message" where
  "introMessage newScenario =
     \<lparr> role = Model, msg_text = JStr (witnessIntroduction newScenario),
       phase = JUndefined, hiddenState = JUndefined \<rparr>"

text \<open>The part of \<open>startSimulation\<close> that runs before \<open>generateScenario\<close> is awaited.\<close>

definition startSimulation_begin :: "Difficulty \<Rightarrow> AppState \<Rightarrow> AppState \<times> effect list" where
  "startSimulation_begin diff s =
     (s\<lparr>isGenerating := True, difficulty := Some diff\<rparr>, [GenerateScenario diff])"

text \<open>The \<open>catch\<close> and \<open>finally\<close> blocks of \<open>startSimulation\<close>.\<close>

definition startSimulation_catch :: "AppState \<Rightarrow> AppState \<times> effect list" where
  "startSimulation_catch s =
     (s\<lparr>isGenerating := False\<rparr>,
      [ConsoleError ''Error starting simulation:'',
       Alert ''Failed to initialize simulation. Please check your connection.''])"

text \<open>
  The rest of \<open>startSimulation\<close>, given how \<open>generateScenario\<close> settled (\<open>gen\<close>) and
  whether building the client and the chat threw (\<open>ai\<close>).
\<close>

definition startSimulation_resume ::
  "Imports \<Rightarrow> Difficulty \<Rightarrow> error + Scenario \<Rightarrow> error + unit \<Rightarrow> AppState \<Rightarrow> AppState \<times> effect list" where
  "startSimulation_resume E diff gen ai s =
     (case gen of
        Inl e \<Rightarrow> startSimulation_catch s
      | Inr newScenario \<Rightarrow>
          (let s1 = s\<lparr>scenario := Some newScenario\<rparr> in
           case ai of
             Inl e \<Rightarrow> startSimulation_catch s1
           | Inr u \<Rightarrow>
               (let chat = createChat E newScenario diff in
                (s1\<lparr>chatSession := Some chat,
                    messages := [introMessage newScenario],
                    isGenerating := False\<rparr>,
                 [ChatsCreate chat]))))"

definition startSimulation ::
  "Imports \<Rightarrow> Difficulty \<Rightarrow> error + Scenario \<Rightarrow> error + unit \<Rightarrow> AppState \<Rightarrow> AppState \<times> effect list" where
  "startSimulation E diff gen ai s =
     (let (s1, es1) = startSimulation_begin diff s;
          (s2, es2) = startSimulation_resume E diff gen ai s1
      in (s2, es1 @ es2))"

section \<open>\<open>endInterview\<close>\<close>

text \<open>
  What a handler is waiting for when it suspends: nothing, the reply to a question (with
  the \<open>newMessages\<close> its closure holds), or the report.
\<close>

datatype continuation = Done | AwaitSend "Message list" | AwaitFeedback

definition endInterview_begin :: "AppState \<Rightarrow> continuation \<times> AppState \<times> effect list" where
  "endInterview_begin s =
     (AwaitFeedback, s\<lparr>isGenerating := True\<rparr>, [GenerateFeedback (messages s) (scenario s)])"

definition endInterview_resume :: "error + FinalReport \<Rightarrow> AppState \<Rightarrow> AppState \<times> effect list" where
  "endInterview_resume fb s =
     (case fb of
        Inr report \<Rightarrow> (s\<lparr>finalReport := Some report, isGenerating := False\<rparr>, [])
      | Inl e \<Rightarrow> (s\<lparr>isGenerating := False\<rparr>, [ConsoleError ''Error generating report:'']))"

section \<open>\<open>handleSendMessage\<close>\<close>

definition userMessage :: "string \<Rightarrow> Message" where
  "userMessage userText =
     \<lparr> role = User, msg_text = JStr userText, phase = JUndefined, hiddenState = JUndefined \<rparr>"

definition fallbackMessage :: Message where
  "fallbackMessage =
     \<lparr> role = Model, msg_text = JStr ''I'm sorry, I'm having trouble processing that question.'',
       phase = JUndefined, hiddenState = JUndefined \<rparr>"

definition handleSendMessage_begin :: "AppState \<Rightarrow> continuation \<times> AppState \<times> effect list" where
  "handleSendMessage_begin s =
     (if trim (inputValue s) = [] \<or> chatSession s = None \<or> isGenerating s then (Done, s, [])
      else
        let userText = inputValue s in
        if toLowerCase userText = ''end interview'' then endInterview_begin s
        else
          let newMessages = messages s @ [userMessage userText] in
          (AwaitSend newMessages,
           s\<lparr>inputValue := [], messages := newMessages, isGenerating := True\<rparr>,
           [SendMessage userText]))"

text \<open>
  The three property reads of the \<open>try\<close> block, in the order of the source.  A read
  throws only on \<open>null\<close> and \<open>undefined\<close>, so either the first read throws, before
  any setter was called, or none does.
\<close>

definition readReply :: "jsval \<Rightarrow> error + (jsval \<times> jsval \<times> jsval)" where
  "readReply data =
     (case get_prop data ''updatedState'' of
        Inl e \<Rightarrow> Inl e
      | Inr updatedState \<Rightarrow>
          (case get_prop data ''currentPhase'' of
             Inl e \<Rightarrow> Inl e
           | Inr phase1 \<Rightarrow>
               (case get_prop data ''witnessResponse'' of
                  Inl e \<Rightarrow> Inl e
                | Inr witnessResponse \<Rightarrow> Inr (updatedState, phase1, witnessResponse))))"

text \<open>
  The rest of \<open>handleSendMessage\<close>.  \<open>reply\<close> is what
  \<open>JSON.parse((await chatSession.sendMessage(...)).text)\<close> gives: \<open>Inl GenerationFailure\<close>
  when the call rejects, \<open>Inl ShapeFailure\<close> when the text does not parse, the parsed
  value otherwise.
\<close>

definition handleSendMessage_resume ::
  "Message list \<Rightarrow> error + jsval \<Rightarrow> AppState \<Rightarrow> AppState \<times> effect list" where
  "handleSendMessage_resume newMessages reply s =
     (case (case reply of Inl e \<Rightarrow> Inl e | Inr data \<Rightarrow> readReply data) of
        Inr (updatedState, phase1, witnessResponse) \<Rightarrow>
          (s\<lparr>latestState := updatedState,
             currentPhase := phase1,
             messages := newMessages @
               [\<lparr> role = Model, msg_text = witnessResponse,
                  phase = phase1, hiddenState = updatedState \<rparr>],
             isGenerating := False\<rparr>,
           [])
      | Inl e \<Rightarrow>
          (s\<lparr>messages := newMessages @ [fallbackMessage], isGenerating := False\<rparr>,
           [ConsoleError ''Error sending message:'']))"

section \<open>Running a handler to completion\<close>

fun resume :: "continuation \<Rightarrow> error + jsval \<Rightarrow> error + FinalReport \<Rightarrow> AppState \<Rightarrow> AppState \<times> effect list" where
  "resume Done reply fb s = (s, [])"
| "resume (AwaitSend newMessages) reply fb s = handleSendMessage_resume newMessages reply s"
| "resume AwaitFeedback reply fb s = endInterview_resume fb s"

definition complete ::
  "continuation \<times> AppState \<times> effect list \<Rightarrow> error + jsval \<Rightarrow> error + FinalReport \<Rightarrow> AppState \<times> effect list" where
  "complete b reply fb =
     (case b of (k, s1, es1) \<Rightarrow> (case resume k reply fb s1 of (s2, es2) \<Rightarrow> (s2, es1 @ es2)))"

definition handleSendMessage :: "error + jsval \<Rightarrow> error + FinalReport \<Rightarrow> AppState \<Rightarrow> AppState \<times> effect list" where
  "handleSendMessage reply fb s = complete (handleSendMessage_begin s) reply fb"

definition endInterview :: "error + FinalReport \<Rightarrow> AppState \<Rightarrow> AppState \<times> effect list" where
  "endInterview fb s = complete (endInterview_begin s) (Inl GenerationFailure) fb"

text \<open>The \<open>onChange\<close> handler of the input field.\<close>

definition typeInput :: "string \<Rightarrow> AppState \<Rightarrow> AppState" where
  "typeInput v s = s\<lparr>inputValue := v\<rparr>"

section \<open>Notions used in the statements\<close>

text \<open>
  The specification speaks of the literal in any letter casing: every position holds the
  letter of the literal or its capital.
\<close>

definition upperOf :: "char \<Rightarrow> char option" where
  "upperOf = map_of (zip ''abcdefghijklmnopqrstuvwxyz'' ''ABCDEFGHIJKLMNOPQRSTUVWXYZ'')"

definition anyCasing :: "string \<Rightarrow> string \<Rightarrow> bool" where
  "anyCasing u v = list_all2 (\<lambda>c d. c = d \<or> upperOf d = Some c) u v"


text \<open>
  The session accepts a submission: a chat session exists and no call is in flight.
\<close>

definition live :: "AppState \<Rightarrow> bool" where
  "live s = (chatSession s \<noteq> None \<and> \<not> isGenerating s)"

text \<open>
  A reply that \<open>handleSendMessage\<close> applies: the call returned, its text parsed, and
  the parsed value is neither \<open>null\<close> nor \<open>undefined\<close>.
\<close>

definition successfulReply :: "error + jsval \<Rightarrow> bool" where
  "successfulReply reply = (case reply of Inl e \<Rightarrow> False | Inr d \<Rightarrow> d \<noteq> JNull \<and> d \<noteq> JUndefined)"

text \<open>
  A sequence of turns: each one types a question, submits it and lets the handler run to
  completion with the given outcome of the model call.
\<close>

fun runTurns :: "(string \<times> (error + jsval) \<times> (error + FinalReport)) list \<Rightarrow> AppState \<Rightarrow> AppState" where
  "runTurns [] s = s"
| "runTurns ((q, reply, fb) # ts) s = runTurns ts (fst (handleSendMessage reply fb (typeInput q s)))"




section \<open>A concrete session\<close>

text \<open>Sample values for the imported constants and for a generated scenario.\<close>

definition exampleImports :: Imports where
  "exampleImports =
     \<lparr> SYSTEM_INSTRUCTION_BASE = ''You are the witness.'',
       difficultyValue = (\<lambda>d. case d of BEGINNER \<Rightarrow> ''Beginner'' | INTERMEDIATE \<Rightarrow> ''Intermediate''
                                | ADVANCED \<Rightarrow> ''Advanced'' | CRISIS \<Rightarrow> ''Crisis''),
       RAPPORT = JStr ''Rapport'' \<rparr>"

definition exampleScenario :: Scenario where
  "exampleScenario =
     \<lparr> investigationType = ''Accounting fraud'', companyBackground = ''A listed retailer'',
       jurisdiction = ''UK'', regulatoryExposure = ''High'', witnessRole = ''Finance manager'',
       witnessArchetype = ''Loyalist'', witnessIntroduction = ''Good morning.'',
       documentUniverse = ''Ledgers and emails'', hiddenGroundTruth = ''Revenue was booked early'',
       keyRiskNodes = Some [''Q3 invoices'', ''Deleted emails''] \<rparr>"

text \<open>The state after \<open>startSimulation\<close> succeeded on the first screen.\<close>

definition startedState :: AppState where
  "startedState =
     fst (startSimulation exampleImports INTERMEDIATE (Inr exampleScenario) (Inr ())
            (initialState exampleImports))"

text \<open>
  A question typed into the input field of the started session, and the state in which
  \<open>handleSendMessage\<close> then awaits the reply.
\<close>

definition askedState :: AppState where
  "askedState = typeInput ''What did you do on March 3rd?'' startedState"

definition inFlightState :: AppState where
  "inFlightState = fst (snd (handleSendMessage_begin askedState))"

text \<open>
  A report, a well-formed reply, and two turns answered by it.
\<close>

definition exampleReport :: FinalReport where
  "exampleReport =
     \<lparr> timelineReconstructionScore = 60, contradictionIdentificationScore = 40,
       riskEscalationAwareness = 55, interviewControlAssessment = 70,
       behavioralAnalysis = ''Guarded'', legalExposureAnalysis = ''Moderate'',
       missedFollowUps = [''Who approved the invoices?''],
       improvedQuestioningPaths = [''Start from the ledger''] \<rparr>"

definition exampleReply :: jsval where
  "exampleReply =
     JObj [(''witnessResponse'', JStr ''I was at my desk all day.''),
           (''currentPhase'', JStr ''Probing''),
           (''updatedState'',
              JObj [(''truthfulness'', JNum 65), (''stress'', JNum 25), (''defensiveness'', JNum 30),
                    (''cooperation'', JNum 75), (''memory'', JNum 90), (''exposure'', JNum 10),
                    (''legalRisk'', JNum 5)])]"

definition exampleTurns :: "(string \<times> (error + jsval) \<times> (error + FinalReport)) list" where
  "exampleTurns =
     [(''What did you do on March 3rd?'', Inr exampleReply, Inl GenerationFailure),
      (''Who approved it?'', Inr exampleReply, Inl GenerationFailure)]"

section \<open>Basic facts\<close>

lemma startSimulation_success:
  "startSimulation E diff (Inr sc) (Inr u) s =
     (s\<lparr>isGenerating := False, difficulty := Some diff, scenario := Some sc,
        chatSession := Some (createChat E sc diff), messages := [introMessage sc]\<rparr>,
      [GenerateScenario diff, ChatsCreate (createChat E sc diff)])"
  by (simp add: startSimulation_def startSimulation_begin_def startSimulation_resume_def Let_def)

lemma startSimulation_failure:
  "startSimulation E diff (Inl e) ai s =
     (s\<lparr>isGenerating := False, difficulty := Some diff\<rparr>,
      [GenerateScenario diff, ConsoleError ''Error starting simulation:'',
       Alert ''Failed to initialize simulation. Please check your connection.''])"
  by (simp add: startSimulation_def startSimulation_begin_def startSimulation_resume_def
      startSimulation_catch_def Let_def)

lemma startedState_eq:
  "startedState =
     \<lparr> difficulty = Some INTERMEDIATE, scenario = Some exampleScenario,
       messages = [introMessage exampleScenario], inputValue = [], isGenerating = False,
       chatSession = Some (createChat exampleImports exampleScenario INTERMEDIATE),
       finalReport = None, latestState = JNull, currentPhase = JStr ''Rapport'' \<rparr>"
  by (simp add: startedState_def startSimulation_success initialState_def exampleImports_def)

lemma all_dropWhile: "(\<forall>c \<in> set (dropWhile P x). P c) \<longleftrightarrow> (\<forall>c \<in> set x. P c)"
  by (induction x) auto

lemma trim_empty_iff: "trim x = [] \<longleftrightarrow> (\<forall>c \<in> set x. isWhiteSpace c)"
  by (simp add: trim_def dropWhile_eq_Nil_conv all_dropWhile)

lemma handleSendMessage_begin_ignored:
  "trim (inputValue s) = [] \<or> chatSession s = None \<or> isGenerating s \<Longrightarrow>
   handleSendMessage_begin s = (Done, s, [])"
  by (simp add: handleSendMessage_begin_def)

lemma map_eq_of_list_all2:
  "list_all2 P u v \<Longrightarrow> (\<And>c d. d \<in> set v \<Longrightarrow> P c d \<Longrightarrow> f c = d) \<Longrightarrow> map f u = v"
  by (induction rule: list_all2_induct) auto

lemma toLowerChar_upperOf: "upperOf d = Some c \<Longrightarrow> toLowerChar c = d"
  by (auto simp: upperOf_def isUpper_def split: if_splits)

lemma toLowerChar_sentinel_char: "d \<in> set ''end interview'' \<Longrightarrow> toLowerChar d = d"
  by (auto simp: isUpper_def)

lemma anyCasing_toLowerCase:
  "anyCasing u ''end interview'' \<Longrightarrow> toLowerCase u = ''end interview''"
  unfolding anyCasing_def toLowerCase_def
  by (erule map_eq_of_list_all2) (auto simp only: toLowerChar_upperOf toLowerChar_sentinel_char)

lemma upperOf_not_space: "upperOf d = Some c \<Longrightarrow> \<not> isWhiteSpace c"
  by (auto simp: upperOf_def isWhiteSpace_def split: if_splits)

lemma anyCasing_Cons:
  "anyCasing u (d # v) \<Longrightarrow> \<exists>c u'. u = c # u' \<and> (c = d \<or> upperOf d = Some c)"
  unfolding anyCasing_def by (auto simp: list_all2_Cons2)

lemma anyCasing_nonblank:
  assumes "anyCasing u ''end interview''"
  shows "\<exists>c \<in> set u. \<not> isWhiteSpace c"
proof -
  from anyCasing_Cons [OF assms]
  obtain c u' where u: "u = c # u'" and c: "c = CHR ''e'' \<or> upperOf (CHR ''e'') = Some c"
    by blast
  from c have "\<not> isWhiteSpace c"
  proof
    assume "c = CHR ''e''"
    then show ?thesis by (simp add: isWhiteSpace_def)
  next
    assume "upperOf (CHR ''e'') = Some c"
    then show ?thesis by (rule upperOf_not_space)
  qed
  with u show ?thesis by auto
qed

lemma handleSendMessage_begin_question:
  assumes "trim (inputValue s) \<noteq> []" "chatSession s \<noteq> None" "\<not> isGenerating s"
    "toLowerCase (inputValue s) \<noteq> ''end interview''"
  shows "handleSendMessage_begin s =
     (AwaitSend (messages s @ [userMessage (inputValue s)]),
      s\<lparr>inputValue := [], messages := messages s @ [userMessage (inputValue s)], isGenerating := True\<rparr>,
      [SendMessage (inputValue s)])"
  using assms by (auto simp: handleSendMessage_begin_def Let_def)

lemma handleSendMessage_begin_sentinel:
  assumes "trim (inputValue s) \<noteq> []" "chatSession s \<noteq> None" "\<not> isGenerating s"
    "toLowerCase (inputValue s) = ''end interview''"
  shows "handleSendMessage_begin s = endInterview_begin s"
  using assms by (auto simp: handleSendMessage_begin_def Let_def)

lemma handleSendMessage_resume_failure:
  "handleSendMessage_resume nm (Inl e) s =
     (s\<lparr>messages := nm @ [fallbackMessage], isGenerating := False\<rparr>, [ConsoleError ''Error sending message:''])"
  by (simp add: handleSendMessage_resume_def)




lemma endInterview_eq:
  "endInterview fb s =
     (case fb of
        Inr report \<Rightarrow> (s\<lparr>isGenerating := False, finalReport := Some report\<rparr>, [GenerateFeedback (messages s) (scenario s)])
      | Inl e \<Rightarrow> (s\<lparr>isGenerating := False\<rparr>, [GenerateFeedback (messages s) (scenario s), ConsoleError ''Error generating report:'']))"
  by (simp add: endInterview_def complete_def endInterview_begin_def endInterview_resume_def split: sum.splits)

lemma handleSendMessage_ignored:
  "trim (inputValue s) = [] \<or> chatSession s = None \<or> isGenerating s \<Longrightarrow> handleSendMessage reply fb s = (s, [])"
  by (simp add: handleSendMessage_def complete_def handleSendMessage_begin_ignored)

lemma handleSendMessage_sentinel:
  assumes "trim (inputValue s) \<noteq> []" "chatSession s \<noteq> None" "\<not> isGenerating s"
    "toLowerCase (inputValue s) = ''end interview''"
  shows "handleSendMessage reply fb s = endInterview fb s"
  using handleSendMessage_begin_sentinel [OF assms]
  by (simp add: handleSendMessage_def endInterview_def complete_def endInterview_begin_def)

lemma toLowerCase_length: "length (toLowerCase x) = length x"
  by (simp add: toLowerCase_def)

lemma anyCasing_length: "anyCasing u v \<Longrightarrow> length u = length v"
  by (simp add: anyCasing_def list_all2_lengthD)

lemma handleSendMessage_begin_feedback_only_sentinel:
  "fst (handleSendMessage_begin s) = AwaitFeedback \<Longrightarrow> toLowerCase (inputValue s) = ''end interview''"
  by (auto simp: handleSendMessage_begin_def Let_def endInterview_begin_def split: if_splits)

lemma handleSendMessage_question:
  assumes "trim (inputValue s) \<noteq> []" "chatSession s \<noteq> None" "\<not> isGenerating s"
    "toLowerCase (inputValue s) \<noteq> ''end interview''"
  shows "handleSendMessage reply fb s =
     (fst (handleSendMessage_resume (messages s @ [userMessage (inputValue s)]) reply
             (s\<lparr>inputValue := [], messages := messages s @ [userMessage (inputValue s)], isGenerating := True\<rparr>)),
      SendMessage (inputValue s) #
      snd (handleSendMessage_resume (messages s @ [userMessage (inputValue s)]) reply
             (s\<lparr>inputValue := [], messages := messages s @ [userMessage (inputValue s)], isGenerating := True\<rparr>)))"
  by (simp add: handleSendMessage_def complete_def handleSendMessage_begin_question [OF assms] split_beta)

lemma handleSendMessage_resume_effects:
  "snd (handleSendMessage_resume nm reply s) = [] \<or>
   snd (handleSendMessage_resume nm reply s) = [ConsoleError ''Error sending message:'']"
  by (auto simp: handleSendMessage_resume_def split: sum.splits prod.splits)

lemma handleSendMessage_resume_finalReport:
  "finalReport (fst (handleSendMessage_resume nm reply s)) = finalReport s"
  by (auto simp: handleSendMessage_resume_def split: sum.splits prod.splits)

lemma askedState_eq:
  "askedState = startedState\<lparr>inputValue := ''What did you do on March 3rd?''\<rparr>"
  by (simp add: askedState_def typeInput_def)

lemma askedState_accepted:
  "trim (inputValue askedState) \<noteq> []" "chatSession askedState \<noteq> None" "\<not> isGenerating askedState"
  "toLowerCase (inputValue askedState) \<noteq> ''end interview''"
  by (simp_all add: askedState_eq startedState_eq trim_empty_iff isWhiteSpace_def toLowerCase_def)

lemma inFlightState_eq:
  "inFlightState =
     startedState\<lparr>messages := [introMessage exampleScenario, userMessage ''What did you do on March 3rd?''],
                  isGenerating := True\<rparr>"
  unfolding inFlightState_def handleSendMessage_begin_question [OF askedState_accepted]
  by (simp add: askedState_eq startedState_eq)

lemma handleSendMessage_resume_shape:
  "\<exists>m. role m = Model \<and>
       messages (fst (handleSendMessage_resume nm reply s)) = nm @ [m] \<and>
       chatSession (fst (handleSendMessage_resume nm reply s)) = chatSession s \<and>
       \<not> isGenerating (fst (handleSendMessage_resume nm reply s))"
  by (auto simp: handleSendMessage_resume_def fallbackMessage_def split: sum.splits prod.splits)

lemma turn_appends_two:
  assumes "live s" "trim q \<noteq> []" "toLowerCase q \<noteq> ''end interview''"
  shows "live (fst (handleSendMessage reply fb (typeInput q s))) \<and>
         map role (messages (fst (handleSendMessage reply fb (typeInput q s)))) =
           map role (messages s) @ [User, Model]"
proof -
  let ?t = "typeInput q s"
  from assms have a: "trim (inputValue ?t) \<noteq> []" "chatSession ?t \<noteq> None" "\<not> isGenerating ?t"
    "toLowerCase (inputValue ?t) \<noteq> ''end interview''"
    by (simp_all add: typeInput_def live_def)
  let ?nm = "messages ?t @ [userMessage (inputValue ?t)]"
  let ?s1 = "?t\<lparr>inputValue := [], messages := ?nm, isGenerating := True\<rparr>"
  from handleSendMessage_resume_shape [of ?nm reply ?s1]
  obtain m where m: "role m = Model"
    "messages (fst (handleSendMessage_resume ?nm reply ?s1)) = ?nm @ [m]"
    "chatSession (fst (handleSendMessage_resume ?nm reply ?s1)) = chatSession ?s1"
    "\<not> isGenerating (fst (handleSendMessage_resume ?nm reply ?s1))"
    by blast
  have h: "fst (handleSendMessage reply fb ?t) = fst (handleSendMessage_resume ?nm reply ?s1)"
    by (simp add: handleSendMessage_question [OF a])
  from m a show ?thesis
    unfolding h by (simp add: live_def typeInput_def userMessage_def)
qed

lemma runTurns_roles:
  assumes "live s"
    and "\<forall>(q, reply, fb) \<in> set ts. trim q \<noteq> [] \<and> toLowerCase q \<noteq> ''end interview''"
  shows "live (runTurns ts s) \<and>
         map role (messages (runTurns ts s)) =
           map role (messages s) @ concat (replicate (length ts) [User, Model])"
  using assms
proof (induction ts arbitrary: s)
  case Nil
  then show ?case by simp
next
  case (Cons t ts)
  obtain q reply fb where t: "t = (q, reply, fb)"
    by (cases t) auto
  from Cons.prems t have q: "trim q \<noteq> []" "toLowerCase q \<noteq> ''end interview''"
    by auto
  let ?s' = "fst (handleSendMessage reply fb (typeInput q s))"
  from turn_appends_two [OF Cons.prems(1) q, of reply fb]
  have l: "live ?s'" and r: "map role (messages ?s') = map role (messages s) @ [User, Model]"
    by simp_all
  from Cons.prems(2) have rest: "\<forall>(q, reply, fb) \<in> set ts. trim q \<noteq> [] \<and> toLowerCase q \<noteq> ''end interview''"
    by simp
  from Cons.IH [OF l rest] r t show ?case
    by simp
qed


section \<open>Starting a session\<close>




text \<open>
  Claim C2.  When \<open>generateScenario\<close> rejects on the first screen, the scenario,
  the transcript, the phase and the internal state are the ones before the call, and the
  failure is logged and reported by an alert.  The difficulty, however, was stored before
  the \<open>try\<close> block and is not taken back: the component leaves the difficulty
  chooser and renders the live interview, without scenario and without chat session.
\<close>

theorem C2_failed_start_sets_difficulty:
  "sessionState (initialState exampleImports) = Uninitialized \<and>
   startSimulation exampleImports BEGINNER (Inl GenerationFailure) (Inr ()) (initialState exampleImports) =
     ((initialState exampleImports)\<lparr>difficulty := Some BEGINNER\<rparr>,
      [GenerateScenario BEGINNER, ConsoleError ''Error starting simulation:'',
       Alert ''Failed to initialize simulation. Please check your connection.'']) \<and>
   sessionState ((initialState exampleImports)\<lparr>difficulty := Some BEGINNER\<rparr>) = Active"
  by (simp add: startSimulation_failure initialState_def sessionState_def)

section \<open>The busy flag\<close>

text \<open>
  Claim C3.  While a question is in flight \<open>isGenerating\<close> is set, and
  \<open>handleSendMessage\<close> ignores every input, the reserved one included.
  \<open>endInterview\<close>, which the button of the header calls directly, has no such guard:
  called in the same state it requests the report from the transcript as it stands,
  stores the report when one arrives, and clears the busy flag although the question is
  still outstanding.
\<close>

theorem C3_endInterview_not_gated:
  "isGenerating inFlightState \<and>
   handleSendMessage (Inr exampleReply) (Inr exampleReport) (typeInput ''end interview'' inFlightState) =
     (typeInput ''end interview'' inFlightState, []) \<and>
   endInterview_begin inFlightState =
     (AwaitFeedback, inFlightState,
      [GenerateFeedback [introMessage exampleScenario, userMessage ''What did you do on March 3rd?'']
         (Some exampleScenario)]) \<and>
   fst (endInterview (Inr exampleReport) inFlightState) =
     inFlightState\<lparr>isGenerating := False, finalReport := Some exampleReport\<rparr> \<and>
   fst (endInterview (Inl GenerationFailure) inFlightState) = inFlightState\<lparr>isGenerating := False\<rparr>"
  by (simp add: handleSendMessage_ignored typeInput_def endInterview_eq endInterview_begin_def
      inFlightState_eq startedState_eq)

section \<open>Blank input and a missing chat session\<close>

text \<open>
  Claim C9.  When the input is empty or consists of white space only, or when there is
  no chat session, \<open>handleSendMessage\<close> returns at once: nothing is awaited, the state
  (transcript, phase, internal state, busy flag and all the rest) is the one it was
  called in, and no call, log or alert is made.
\<close>

theorem C9_blank_or_no_session_is_noop:
  assumes "(\<forall>c \<in> set (inputValue s). isWhiteSpace c) \<or> chatSession s = None"
  shows "handleSendMessage_begin s = (Done, s, []) \<and> handleSendMessage reply fb s = (s, [])"
proof -
  from assms have "trim (inputValue s) = [] \<or> chatSession s = None \<or> isGenerating s"
    by (auto simp: trim_empty_iff)
  then have "handleSendMessage_begin s = (Done, s, [])"
    by (rule handleSendMessage_begin_ignored)
  then show ?thesis
    by (simp add: handleSendMessage_def complete_def)
qed

theorem C9_witness:
  "((\<forall>c \<in> set (inputValue (typeInput ''   '' startedState)). isWhiteSpace c)
      \<or> chatSession (typeInput ''   '' startedState) = None)
   \<and> handleSendMessage (Inr (JObj [])) (Inl GenerationFailure) (typeInput ''   '' startedState)
       = (typeInput ''   '' startedState, [])"
  using C9_blank_or_no_session_is_noop
    [of "typeInput ''   '' startedState" "Inr (JObj [])" "Inl GenerationFailure"]
  by (simp add: typeInput_def isWhiteSpace_def)

section \<open>The reserved input\<close>

text \<open>
  Claim C5, as the code has it.  When the input is the literal "end interview" in any
  letter casing, the transcript after \<open>handleSendMessage\<close> is the transcript before it,
  in every state.  When a chat session exists and no call is in flight, the handler does
  what \<open>endInterview\<close> does and nothing else: \<open>generateFeedback\<close> is called on the
  transcript and the scenario, and no message is sent to the chat.  When there is no chat
  session or a call is in flight, the guard on the first line of the handler returns
  first: the literal is ignored like any other input and no report is requested.
\<close>

theorem C5_sentinel_concludes:
  assumes "anyCasing (inputValue s) ''end interview''"
  shows "messages (fst (handleSendMessage reply fb s)) = messages s \<and>
         (chatSession s \<noteq> None \<and> \<not> isGenerating s \<longrightarrow>
            handleSendMessage_begin s = endInterview_begin s \<and>
            handleSendMessage reply fb s = endInterview fb s \<and>
            snd (handleSendMessage reply fb s) =
              GenerateFeedback (messages s) (scenario s) #
              (case fb of Inl e \<Rightarrow> [ConsoleError ''Error generating report:''] | Inr report \<Rightarrow> []) \<and>
            (\<forall>q. SendMessage q \<notin> set (snd (handleSendMessage reply fb s)))) \<and>
         (chatSession s = None \<or> isGenerating s \<longrightarrow>
            handleSendMessage_begin s = (Done, s, []) \<and>
            handleSendMessage reply fb s = (s, []))"
proof -
  from assms have low: "toLowerCase (inputValue s) = ''end interview''"
    by (rule anyCasing_toLowerCase)
  from anyCasing_nonblank [OF assms] have nb: "trim (inputValue s) \<noteq> []"
    by (simp add: trim_empty_iff)
  show ?thesis
  proof (cases "chatSession s \<noteq> None \<and> \<not> isGenerating s")
    case True
    then have g: "chatSession s \<noteq> None" "\<not> isGenerating s" by simp_all
    have b: "handleSendMessage_begin s = endInterview_begin s"
      by (rule handleSendMessage_begin_sentinel [OF nb g low])
    have h: "handleSendMessage reply fb s = endInterview fb s"
      by (rule handleSendMessage_sentinel [OF nb g low])
    from g show ?thesis
      unfolding b h by (cases fb) (simp_all add: endInterview_eq)
  next
    case False
    then have i: "trim (inputValue s) = [] \<or> chatSession s = None \<or> isGenerating s"
      by auto
    have "handleSendMessage_begin s = (Done, s, [])"
      by (rule handleSendMessage_begin_ignored [OF i])
    moreover have "handleSendMessage reply fb s = (s, [])"
      by (rule handleSendMessage_ignored [OF i])
    ultimately show ?thesis
      using False by auto
  qed
qed

theorem C5_witness:
  "anyCasing (inputValue (typeInput ''End Interview'' startedState)) ''end interview'' \<and>
   chatSession (typeInput ''End Interview'' startedState) \<noteq> None \<and>
   \<not> isGenerating (typeInput ''End Interview'' startedState) \<and>
   messages (fst (handleSendMessage (Inl GenerationFailure) (Inl GenerationFailure)
      (typeInput ''End Interview'' startedState))) = [introMessage exampleScenario] \<and>
   snd (handleSendMessage (Inl GenerationFailure) (Inl GenerationFailure)
      (typeInput ''End Interview'' startedState)) =
     [GenerateFeedback [introMessage exampleScenario] (Some exampleScenario),
      ConsoleError ''Error generating report:'']"
proof -
  have c: "anyCasing (inputValue (typeInput ''End Interview'' startedState)) ''end interview''"
    by (simp add: typeInput_def anyCasing_def upperOf_def)
  from C5_sentinel_concludes [OF c, of "Inl GenerationFailure" "Inl GenerationFailure"] c
  show ?thesis
    by (simp add: typeInput_def startedState_eq anyCasing_def upperOf_def endInterview_eq)
qed

text \<open>
  Claim C5 as stated has the literal always conclude the session while the live
  interview is on screen.  While a question is in flight the live interview is on
  screen, and the literal typed and submitted then is ignored: nothing is awaited, the
  state is unchanged and no report is requested.
\<close>

theorem C5_counterexample:
  "sessionState (typeInput ''END INTERVIEW'' inFlightState) = Active \<and>
   anyCasing (inputValue (typeInput ''END INTERVIEW'' inFlightState)) ''end interview'' \<and>
   isGenerating (typeInput ''END INTERVIEW'' inFlightState) \<and>
   handleSendMessage_begin (typeInput ''END INTERVIEW'' inFlightState) =
     (Done, typeInput ''END INTERVIEW'' inFlightState, []) \<and>
   handleSendMessage (Inr exampleReply) (Inr exampleReport) (typeInput ''END INTERVIEW'' inFlightState) =
     (typeInput ''END INTERVIEW'' inFlightState, [])"
proof -
  have b: "isGenerating (typeInput ''END INTERVIEW'' inFlightState)"
    by (simp add: typeInput_def inFlightState_eq)
  then have i: "trim (inputValue (typeInput ''END INTERVIEW'' inFlightState)) = [] \<or>
      chatSession (typeInput ''END INTERVIEW'' inFlightState) = None \<or>
      isGenerating (typeInput ''END INTERVIEW'' inFlightState)"
    by simp
  have a: "anyCasing (inputValue (typeInput ''END INTERVIEW'' inFlightState)) ''end interview''"
    by (simp add: typeInput_def anyCasing_def upperOf_def)
  have s: "sessionState (typeInput ''END INTERVIEW'' inFlightState) = Active"
    by (simp add: typeInput_def inFlightState_eq startedState_eq sessionState_def)
  from s a b handleSendMessage_begin_ignored [OF i]
    handleSendMessage_ignored [OF i, of "Inr exampleReply" "Inr exampleReport"]
  show ?thesis
    by simp
qed

text \<open>
  Claim C10, as the code has it.  The reserved input is compared untrimmed: only an input
  whose lower-cased text is exactly "end interview" makes \<open>handleSendMessage\<close> ask for
  the report.  An input that pads those words with white space on either side is not
  blank and is not the literal, so in no state is a report requested or stored for it.
  When a chat session exists and no call is in flight, the handler appends a user entry
  whose text is the input as it was typed, white space included, sends that same text to
  the chat, and after the reply the transcript is the old one followed by that entry and
  one entry of the model.  When there is no chat session or a call is in flight, the
  input is ignored like any other.
\<close>

theorem C10_padded_sentinel_is_question:
  assumes w: "anyCasing w ''end interview''"
    and pre: "\<forall>c \<in> set pre. isWhiteSpace c"
    and post: "\<forall>c \<in> set post. isWhiteSpace c"
    and pad: "pre \<noteq> [] \<or> post \<noteq> []"
    and inp: "inputValue s = pre @ w @ post"
  shows "trim (inputValue s) \<noteq> [] \<and>
         toLowerCase (inputValue s) \<noteq> ''end interview'' \<and>
         (chatSession s \<noteq> None \<and> \<not> isGenerating s \<longrightarrow>
            handleSendMessage_begin s =
              (AwaitSend (messages s @
                 [\<lparr>role = User, msg_text = JStr (pre @ w @ post),
                   phase = JUndefined, hiddenState = JUndefined\<rparr>]),
               s\<lparr>inputValue := [],
                 messages := messages s @
                   [\<lparr>role = User, msg_text = JStr (pre @ w @ post),
                     phase = JUndefined, hiddenState = JUndefined\<rparr>],
                 isGenerating := True\<rparr>,
               [SendMessage (pre @ w @ post)]) \<and>
            (\<exists>es. snd (handleSendMessage reply fb s) = SendMessage (pre @ w @ post) # es) \<and>
            (\<exists>m. role m = Model \<and>
                 messages (fst (handleSendMessage reply fb s)) =
                   messages s @
                     [\<lparr>role = User, msg_text = JStr (pre @ w @ post),
                       phase = JUndefined, hiddenState = JUndefined\<rparr>, m])) \<and>
         (chatSession s = None \<or> isGenerating s \<longrightarrow>
            handleSendMessage_begin s = (Done, s, []) \<and>
            handleSendMessage reply fb s = (s, [])) \<and>
         (\<forall>ms sc. GenerateFeedback ms sc \<notin> set (snd (handleSendMessage reply fb s))) \<and>
         finalReport (fst (handleSendMessage reply fb s)) = finalReport s \<and>
         (\<forall>s'. fst (handleSendMessage_begin s') = AwaitFeedback \<longrightarrow>
               toLowerCase (inputValue s') = ''end interview'')"
proof -
  from anyCasing_length [OF w] have "length w = 13" by simp
  with pad inp have "length (toLowerCase (inputValue s)) \<noteq> 13"
    by (auto simp: toLowerCase_length)
  then have low: "toLowerCase (inputValue s) \<noteq> ''end interview''"
    by auto
  from anyCasing_nonblank [OF w] inp have nb: "trim (inputValue s) \<noteq> []"
    by (auto simp: trim_empty_iff)
  have only: "\<forall>s'. fst (handleSendMessage_begin s') = AwaitFeedback \<longrightarrow>
               toLowerCase (inputValue s') = ''end interview''"
    by (simp add: handleSendMessage_begin_feedback_only_sentinel)
  show ?thesis
  proof (cases "chatSession s \<noteq> None \<and> \<not> isGenerating s")
    case True
    then have live: "chatSession s \<noteq> None" "\<not> isGenerating s" by simp_all
    let ?u = "\<lparr>role = User, msg_text = JStr (pre @ w @ post),
                phase = JUndefined, hiddenState = JUndefined\<rparr>"
    let ?nm = "messages s @ [userMessage (inputValue s)]"
    let ?s1 = "s\<lparr>inputValue := [], messages := ?nm, isGenerating := True\<rparr>"
    have u: "userMessage (inputValue s) = ?u"
      by (simp add: userMessage_def inp)
    note b = handleSendMessage_begin_question [OF nb live low]
    note h = handleSendMessage_question [OF nb live low, of reply fb]
    have fr: "finalReport (fst (handleSendMessage reply fb s)) = finalReport s"
      using handleSendMessage_resume_finalReport [of ?nm reply ?s1]
      by (simp add: h)
    have ef: "(\<exists>es. snd (handleSendMessage reply fb s) = SendMessage (inputValue s) # es) \<and>
        (\<forall>ms sc. GenerateFeedback ms sc \<notin> set (snd (handleSendMessage reply fb s)))"
      using handleSendMessage_resume_effects [of ?nm reply ?s1]
      by (auto simp: h)
    from handleSendMessage_resume_shape [of ?nm reply ?s1]
    obtain m where "role m = Model"
      and "messages (fst (handleSendMessage_resume ?nm reply ?s1)) = ?nm @ [m]"
      by blast
    then have tr: "\<exists>m. role m = Model \<and>
        messages (fst (handleSendMessage reply fb s)) = messages s @ [?u, m]"
      by (auto simp: h u)
    from b have b': "handleSendMessage_begin s =
        (AwaitSend (messages s @ [?u]),
         s\<lparr>inputValue := [], messages := messages s @ [?u], isGenerating := True\<rparr>,
         [SendMessage (pre @ w @ post)])"
      by (simp add: userMessage_def inp)
    from ef have ef': "(\<exists>es. snd (handleSendMessage reply fb s) = SendMessage (pre @ w @ post) # es)"
      and nf: "\<forall>ms sc. GenerateFeedback ms sc \<notin> set (snd (handleSendMessage reply fb s))"
      by (simp_all add: inp)
    from nb low live b' ef' tr nf fr only show ?thesis
      by blast
  next
    case False
    then have i: "trim (inputValue s) = [] \<or> chatSession s = None \<or> isGenerating s"
      by auto
    have b: "handleSendMessage_begin s = (Done, s, [])"
      by (rule handleSendMessage_begin_ignored [OF i])
    have h: "handleSendMessage reply fb s = (s, [])"
      by (rule handleSendMessage_ignored [OF i])
    from h have nf: "\<forall>ms sc. GenerateFeedback ms sc \<notin> set (snd (handleSendMessage reply fb s))"
      and fr: "finalReport (fst (handleSendMessage reply fb s)) = finalReport s"
      by simp_all
    from nb low False b h nf fr only show ?thesis
      by blast
  qed
qed

theorem C10_witness:
  "anyCasing ''End Interview'' ''end interview'' \<and>
   isWhiteSpace (CHR '' '') \<and>
   inputValue (typeInput ''End Interview '' startedState) = [] @ ''End Interview'' @ '' '' \<and>
   chatSession (typeInput ''End Interview '' startedState) \<noteq> None \<and>
   \<not> isGenerating (typeInput ''End Interview '' startedState) \<and>
   fst (snd (handleSendMessage_begin (typeInput ''End Interview '' startedState))) =
     startedState\<lparr>messages :=
                    [introMessage exampleScenario,
                     \<lparr>role = User, msg_text = JStr ''End Interview '',
                       phase = JUndefined, hiddenState = JUndefined\<rparr>],
                  isGenerating := True\<rparr> \<and>
   snd (snd (handleSendMessage_begin (typeInput ''End Interview '' startedState))) =
     [SendMessage ''End Interview ''] \<and>
   fst (handleSendMessage_begin (typeInput ''END INTERVIEW'' startedState)) = AwaitFeedback \<and>
   toLowerCase (inputValue (typeInput ''END INTERVIEW'' startedState)) = ''end interview''"
proof -
  have a: "anyCasing ''End Interview'' ''end interview''"
    by (simp add: anyCasing_def upperOf_def)
  have sp: "isWhiteSpace (CHR '' '')"
    by (simp add: isWhiteSpace_def)
  then have p: "\<forall>c \<in> set []. isWhiteSpace c" "\<forall>c \<in> set '' ''. isWhiteSpace c"
    "[] \<noteq> ([] :: string) \<or> '' '' \<noteq> []"
    by simp_all
  have i: "inputValue (typeInput ''End Interview '' startedState) = [] @ ''End Interview'' @ '' ''"
    by (simp add: typeInput_def)
  have l: "chatSession (typeInput ''End Interview '' startedState) \<noteq> None \<and>
    \<not> isGenerating (typeInput ''End Interview '' startedState)"
    by (simp add: typeInput_def startedState_eq)
  have f: "fst (handleSendMessage_begin (typeInput ''END INTERVIEW'' startedState)) = AwaitFeedback"
    by (simp add: handleSendMessage_begin_def endInterview_begin_def typeInput_def startedState_eq
        trim_empty_iff isWhiteSpace_def toLowerCase_def isUpper_def)
  from C10_padded_sentinel_is_question
    [OF a p i, of "Inl GenerationFailure" "Inl GenerationFailure"] l
  have "handleSendMessage_begin (typeInput ''End Interview '' startedState) =
          (AwaitSend (messages (typeInput ''End Interview '' startedState) @
                        [\<lparr>role = User, msg_text = JStr ([] @ ''End Interview'' @ '' ''),
                          phase = JUndefined, hiddenState = JUndefined\<rparr>]),
           (typeInput ''End Interview '' startedState)
             \<lparr>inputValue := [],
              messages := messages (typeInput ''End Interview '' startedState) @
                            [\<lparr>role = User, msg_text = JStr ([] @ ''End Interview'' @ '' ''),
                              phase = JUndefined, hiddenState = JUndefined\<rparr>],
              isGenerating := True\<rparr>,
           [SendMessage ([] @ ''End Interview'' @ '' '')])"
    and "fst (handleSendMessage_begin (typeInput ''END INTERVIEW'' startedState)) = AwaitFeedback \<longrightarrow>
         toLowerCase (inputValue (typeInput ''END INTERVIEW'' startedState)) = ''end interview''"
    by blast+
  with a sp i l f show ?thesis
    by (simp add: typeInput_def startedState_eq)
qed

text \<open>
  Claim C10 as stated has every padded input appended to the transcript and sent.  While
  a question is in flight the padded literal is not blank, yet it is neither appended
  nor sent: the handler returns the state it was called in and does nothing.
\<close>

theorem C10_counterexample:
  "sessionState (typeInput ''end interview '' inFlightState) = Active \<and>
   trim (inputValue (typeInput ''end interview '' inFlightState)) \<noteq> [] \<and>
   isGenerating (typeInput ''end interview '' inFlightState) \<and>
   handleSendMessage (Inr exampleReply) (Inr exampleReport) (typeInput ''end interview '' inFlightState) =
     (typeInput ''end interview '' inFlightState, []) \<and>
   messages (typeInput ''end interview '' inFlightState) =
     [introMessage exampleScenario, userMessage ''What did you do on March 3rd?'']"
proof -
  have b: "isGenerating (typeInput ''end interview '' inFlightState)"
    by (simp add: typeInput_def inFlightState_eq)
  then have i: "trim (inputValue (typeInput ''end interview '' inFlightState)) = [] \<or>
      chatSession (typeInput ''end interview '' inFlightState) = None \<or>
      isGenerating (typeInput ''end interview '' inFlightState)"
    by simp
  have n: "trim (inputValue (typeInput ''end interview '' inFlightState)) \<noteq> []"
    by (simp add: typeInput_def trim_empty_iff isWhiteSpace_def)
  have s: "sessionState (typeInput ''end interview '' inFlightState) = Active"
    by (simp add: typeInput_def inFlightState_eq startedState_eq sessionState_def)
  have m: "messages (typeInput ''end interview '' inFlightState) =
     [introMessage exampleScenario, userMessage ''What did you do on March 3rd?'']"
    by (simp add: typeInput_def inFlightState_eq)
  from s n b m handleSendMessage_ignored [OF i, of "Inr exampleReply" "Inr exampleReport"]
  show ?thesis
    by simp
qed

section \<open>Applying the reply\<close>




text \<open>
  Claim C6.  When the call or the parsing of its reply fails for an accepted question,
  the transcript grows by the user's entry followed by exactly one fallback entry of the
  model ("trouble processing that question"); phase and internal state are the ones
  before the call, the screen is the one before the call, and the busy flag is clear
  again.
\<close>

theorem C6_failed_turn_appends_fallback:
  assumes "trim (inputValue s) \<noteq> []" "chatSession s \<noteq> None" "\<not> isGenerating s"
    "toLowerCase (inputValue s) \<noteq> ''end interview''"
  shows "handleSendMessage (Inl e) fb s =
           (s\<lparr>inputValue := [],
              messages := messages s @ [userMessage (inputValue s), fallbackMessage]\<rparr>,
            [SendMessage (inputValue s), ConsoleError ''Error sending message:'']) \<and>
         currentPhase (fst (handleSendMessage (Inl e) fb s)) = currentPhase s \<and>
         latestState (fst (handleSendMessage (Inl e) fb s)) = latestState s \<and>
         sessionState (fst (handleSendMessage (Inl e) fb s)) = sessionState s \<and>
         \<not> isGenerating (fst (handleSendMessage (Inl e) fb s)) \<and>
         role fallbackMessage = Model \<and>
         msg_text fallbackMessage =
           JStr (''I'm sorry, I'm having '' @ ''trouble processing that question'' @ ''.'')"
  using assms
  by (simp add: handleSendMessage_question [OF assms] handleSendMessage_resume_failure
      sessionState_def fallbackMessage_def)

theorem C6_witness:
  "trim (inputValue askedState) \<noteq> [] \<and> chatSession askedState \<noteq> None \<and>
   \<not> isGenerating askedState \<and> toLowerCase (inputValue askedState) \<noteq> ''end interview'' \<and>
   sessionState askedState = Active \<and>
   fst (handleSendMessage (Inl ShapeFailure) (Inl GenerationFailure) askedState) =
     startedState\<lparr>messages := [introMessage exampleScenario,
                                 userMessage ''What did you do on March 3rd?'', fallbackMessage]\<rparr> \<and>
   sessionState (fst (handleSendMessage (Inl ShapeFailure) (Inl GenerationFailure) askedState)) = Active"
  using C6_failed_turn_appends_fallback [OF askedState_accepted, of ShapeFailure "Inl GenerationFailure"]
    askedState_accepted
  by (simp add: askedState_eq startedState_eq sessionState_def)

text \<open>
  Claim C7.  After a successful start, every sequence of \<open>N\<close> turns whose inputs are
  neither blank nor the reserved literal and whose replies are applied leaves a
  transcript of \<open>1 + 2 * N\<close> entries: the introduction, then for each turn the user's
  entry and the model's entry.  In the state in which a further question awaits its
  reply, the user's entry is already the last one of the transcript and the message was
  sent.
\<close>

theorem C7_transcript_length:
  assumes "\<forall>(q, reply, fb) \<in> set ts.
             trim q \<noteq> [] \<and> toLowerCase q \<noteq> ''end interview'' \<and> successfulReply reply"
  shows "length (messages (runTurns ts (fst (startSimulation E diff (Inr sc) (Inr u) s0)))) =
           1 + 2 * length ts \<and>
         map role (messages (runTurns ts (fst (startSimulation E diff (Inr sc) (Inr u) s0)))) =
           Model # concat (replicate (length ts) [User, Model]) \<and>
         (\<forall>q. trim q \<noteq> [] \<and> toLowerCase q \<noteq> ''end interview'' \<longrightarrow>
            messages (fst (snd (handleSendMessage_begin
              (typeInput q (runTurns ts (fst (startSimulation E diff (Inr sc) (Inr u) s0))))))) =
            messages (runTurns ts (fst (startSimulation E diff (Inr sc) (Inr u) s0))) @ [userMessage q] \<and>
            snd (snd (handleSendMessage_begin
              (typeInput q (runTurns ts (fst (startSimulation E diff (Inr sc) (Inr u) s0)))))) =
            [SendMessage q])"
proof -
  let ?s1 = "fst (startSimulation E diff (Inr sc) (Inr u) s0)"
  have l1: "live ?s1" and m1: "map role (messages ?s1) = [Model]"
    by (simp_all add: startSimulation_success live_def introMessage_def)
  from assms have a: "\<forall>(q, reply, fb) \<in> set ts. trim q \<noteq> [] \<and> toLowerCase q \<noteq> ''end interview''"
    by auto
  from runTurns_roles [OF l1 a] m1
  have ln: "live (runTurns ts ?s1)"
    and roles: "map role (messages (runTurns ts ?s1)) = Model # concat (replicate (length ts) [User, Model])"
    by simp_all
  have "length (map role (messages (runTurns ts ?s1))) = 1 + 2 * length ts"
    unfolding roles by (induction ts) simp_all
  then have len: "length (messages (runTurns ts ?s1)) = 1 + 2 * length ts"
    by simp
  have next_turn: "messages (fst (snd (handleSendMessage_begin (typeInput q (runTurns ts ?s1))))) =
            messages (runTurns ts ?s1) @ [userMessage q] \<and>
          snd (snd (handleSendMessage_begin (typeInput q (runTurns ts ?s1)))) = [SendMessage q]"
    if "trim q \<noteq> []" "toLowerCase q \<noteq> ''end interview''" for q
  proof -
    let ?t = "typeInput q (runTurns ts ?s1)"
    from that ln have a: "trim (inputValue ?t) \<noteq> []" "chatSession ?t \<noteq> None" "\<not> isGenerating ?t"
      "toLowerCase (inputValue ?t) \<noteq> ''end interview''"
      by (simp_all add: typeInput_def live_def)
    show ?thesis
      unfolding handleSendMessage_begin_question [OF a] by (simp add: typeInput_def)
  qed
  from len roles next_turn show ?thesis
    by blast
qed

theorem C7_witness:
  "trim ''What did you do on March 3rd?'' \<noteq> [] \<and>
   toLowerCase ''What did you do on March 3rd?'' \<noteq> ''end interview'' \<and>
   trim ''Who approved it?'' \<noteq> [] \<and>
   toLowerCase ''Who approved it?'' \<noteq> ''end interview'' \<and>
   successfulReply (Inr exampleReply) \<and>
   length (messages (runTurns exampleTurns startedState)) = 5 \<and>
   map role (messages (runTurns exampleTurns startedState)) = [Model, User, Model, User, Model] \<and>
   trim ''And then?'' \<noteq> [] \<and> toLowerCase ''And then?'' \<noteq> ''end interview'' \<and>
   messages (fst (snd (handleSendMessage_begin
       (typeInput ''And then?'' (runTurns exampleTurns startedState))))) =
     messages (runTurns exampleTurns startedState) @ [userMessage ''And then?''] \<and>
   snd (snd (handleSendMessage_begin
       (typeInput ''And then?'' (runTurns exampleTurns startedState)))) =
     [SendMessage ''And then?'']"
proof -
  have q: "trim ''What did you do on March 3rd?'' \<noteq> []"
    "toLowerCase ''What did you do on March 3rd?'' \<noteq> ''end interview''"
    "trim ''Who approved it?'' \<noteq> []" "toLowerCase ''Who approved it?'' \<noteq> ''end interview''"
    "trim ''And then?'' \<noteq> []" "toLowerCase ''And then?'' \<noteq> ''end interview''"
    by (simp_all add: trim_empty_iff isWhiteSpace_def toLowerCase_def)
  have r: "successfulReply (Inr exampleReply)"
    by (simp add: successfulReply_def exampleReply_def)
  from q r have a: "\<forall>(q, reply, fb) \<in> set exampleTurns.
      trim q \<noteq> [] \<and> toLowerCase q \<noteq> ''end interview'' \<and> successfulReply reply"
    by (simp add: exampleTurns_def)
  from C7_transcript_length
    [OF a, of exampleImports INTERMEDIATE exampleScenario "()" "initialState exampleImports"]
  have "length (messages (runTurns exampleTurns startedState)) = 1 + 2 * length exampleTurns"
    and "map role (messages (runTurns exampleTurns startedState)) =
           Model # concat (replicate (length exampleTurns) [User, Model])"
    and "trim ''And then?'' \<noteq> [] \<and> toLowerCase ''And then?'' \<noteq> ''end interview'' \<longrightarrow>
           messages (fst (snd (handleSendMessage_begin
              (typeInput ''And then?'' (runTurns exampleTurns startedState))))) =
             messages (runTurns exampleTurns startedState) @ [userMessage ''And then?''] \<and>
           snd (snd (handleSendMessage_begin
              (typeInput ''And then?'' (runTurns exampleTurns startedState)))) =
             [SendMessage ''And then?'']"
    unfolding startedState_def by blast+
  moreover have "length exampleTurns = 2"
    by (simp add: exampleTurns_def)
  ultimately show ?thesis
    using q r by (simp add: numeral_2_eq_2)
qed

section \<open>Failing to conclude\<close>

text \<open>
  Claim C8.  When \<open>generateFeedback\<close> rejects, no report is stored, the interview
  stays on screen and \<open>endInterview\<close> can be called again.  The failure itself is only
  written to the console: no alert is raised and no entry is added, and the state after
  the call is the state before it.
\<close>

theorem C8_failed_report_only_logged:
  "sessionState startedState = Active \<and> \<not> isGenerating startedState \<and>
   endInterview (Inl GenerationFailure) startedState =
     (startedState,
      [GenerateFeedback [introMessage exampleScenario] (Some exampleScenario),
       ConsoleError ''Error generating report:''])"
  by (simp add: endInterview_eq startedState_eq sessionState_def)

end
